theory Spec2Isabelle
  imports Main "HOL-Library.AList" "HOL-Library.Char_ord" "HOL-Library.List_Lexorder"
begin

section \<open>Conversation model (session.py: Message, Session)\<close>

text \<open>
  A Python \<open>str\<close> is a \<open>string\<close>: the bytes of its code points in UTF-8, one code
  point after the other (a \<open>str\<close> may hold a surrogate code point, which has three bytes
  in the same scheme). Two strs are equal, or one is the other's prefix, exactly when
  the byte lists are, and concatenation is concatenation. \<open>Optional[str]\<close> is a
  \<open>string option\<close>. Strings are compared as Python compares them, by code points, which
  is the lexicographic order of the bytes (\<open>List_Lexorder\<close> over \<open>Char_ord\<close>).
  The field \<open>id\<close> of \<open>Session\<close> is called \<open>id_s\<close>, since \<open>id\<close> is the identity of HOL.
\<close>

record Message =
  role :: string
  content :: string
  timestamp :: string

record Session =
  id_s :: string
  messages :: "Message list"
  created_at :: string
  system_prompt :: "string option"

text \<open>The dictionary \<open>{"role": r, "content": c}\<close> handed to the completion API.\<close>

record api_message =
  api_role :: string
  api_content :: string

text \<open>Python's truth value of an \<open>Optional[str]\<close>: neither \<open>None\<close> nor the empty string.\<close>

definition truthy :: "string option \<Rightarrow> bool" where
  "truthy v = (case v of None \<Rightarrow> False | Some s \<Rightarrow> s \<noteq> [])"

text \<open>\<open>Session.add_message\<close>: appends to \<open>self.messages\<close>; the updated object is returned.\<close>

definition add_message :: "Session \<Rightarrow> Message \<Rightarrow> Session" where
  "add_message self message = self\<lparr>messages := messages self @ [message]\<rparr>"

text \<open>
  \<open>Session.get_messages_for_api\<close>. The method returns a value and receives \<open>self\<close>;
  the model returns the value together with \<open>self\<close> as the body leaves it.
\<close>

definition get_messages_for_api :: "Session \<Rightarrow> api_message list \<times> Session" where
  "get_messages_for_api self =
     (let messages0 = map (\<lambda>m. \<lparr>api_role = role m, api_content = content m\<rparr>) (messages self);
          messages1 =
            (if truthy (system_prompt self)
             then \<lparr>api_role = ''system'', api_content = the (system_prompt self)\<rparr> # messages0
             else messages0)
      in (messages1, self))"

section \<open>Serialisation (to_dict, from_dict)\<close>

text \<open>
  The values \<open>json.load\<close> produces and \<open>json.dump\<close> consumes. An object is the Python
  dictionary it parses to, as the list of its items (keys distinct), read with \<open>map_of\<close>.
  The number inside \<open>JNum\<close> is never read by the code.
\<close>

datatype json =
    JNull
  | JBool bool
  | JNum int
  | JStr string
  | JArr "json list"
  | JObj "(string \<times> json) list"

text \<open>
  The exceptions of the model. \<open>IllTyped\<close> is not a Python exception: it marks a record
  whose field holds another JSON type than the dataclass declares (Python would build the
  object all the same, with a value outside the types of \<open>Message\<close> and \<open>Session\<close>);
  the model follows such a record no further. \<open>OSError\<close> stands for its subclasses
  too (\<open>FileNotFoundError\<close>, \<open>PermissionError\<close>); \<open>MarkupError\<close> is the exception of
  Rich's console markup.
\<close>

datatype error =
    KeyError string
  | TypeError
  | JSONDecodeError
  | AttributeError
  | IllTyped
  | OSError
  | ValueError
  | MarkupError

definition Message_to_dict :: "Message \<Rightarrow> json" where
  "Message_to_dict m =
     JObj [(''role'', JStr (role m)), (''content'', JStr (content m)),
           (''timestamp'', JStr (timestamp m))]"

definition to_dict :: "Session \<Rightarrow> json" where
  "to_dict self =
     JObj [(''id'', JStr (id_s self)),
           (''messages'', JArr (map Message_to_dict (messages self))),
           (''created_at'', JStr (created_at self)),
           (''system_prompt'', (case system_prompt self of None \<Rightarrow> JNull | Some p \<Rightarrow> JStr p))]"

text \<open>\<open>data[key]\<close>: a missing key raises KeyError, a value that is no dictionary TypeError.\<close>

fun subscript :: "json \<Rightarrow> string \<Rightarrow> error + json" where
  "subscript (JObj kvs) k = (case map_of kvs k of None \<Rightarrow> Inl (KeyError k) | Some v \<Rightarrow> Inr v)"
| "subscript _ k = Inl TypeError"

text \<open>
  Iterating a value, as the comprehension over \<open>data["messages"]\<close> does: a list gives its
  elements, a string its characters, a dictionary its keys; anything else is not iterable.
\<close>

fun iterate :: "json \<Rightarrow> error + json list" where
  "iterate (JArr xs) = Inr xs"
| "iterate (JStr s) = Inr (map (\<lambda>c. JStr [c]) s)"
| "iterate (JObj kvs) = Inr (map (\<lambda>kv. JStr (fst kv)) kvs)"
| "iterate _ = Inl TypeError"

text \<open>The three subscripts of \<open>Message.from_dict\<close>, in the order the call evaluates them.\<close>

definition Message_fields :: "json \<Rightarrow> error + json \<times> json \<times> json" where
  "Message_fields d =
     (case subscript d ''role'' of Inl e \<Rightarrow> Inl e | Inr r \<Rightarrow>
      (case subscript d ''content'' of Inl e \<Rightarrow> Inl e | Inr c \<Rightarrow>
       (case subscript d ''timestamp'' of Inl e \<Rightarrow> Inl e | Inr t \<Rightarrow> Inr (r, c, t))))"

text \<open>The list comprehension: the first element that raises ends it.\<close>

fun Messages_fields :: "json list \<Rightarrow> error + (json \<times> json \<times> json) list" where
  "Messages_fields [] = Inr []"
| "Messages_fields (d # ds) =
     (case Message_fields d of Inl e \<Rightarrow> Inl e | Inr m \<Rightarrow>
      (case Messages_fields ds of Inl e \<Rightarrow> Inl e | Inr ms \<Rightarrow> Inr (m # ms)))"

text \<open>\<open>data.get("system_prompt")\<close> on a dictionary: \<open>None\<close> when the key is absent.\<close>

fun dict_get :: "json \<Rightarrow> string \<Rightarrow> json" where
  "dict_get (JObj kvs) k = (case map_of kvs k of None \<Rightarrow> JNull | Some v \<Rightarrow> v)"
| "dict_get _ k = JNull"

text \<open>
  The arguments of the constructor call in \<open>Session.from_dict\<close>, evaluated in the order
  of the source: \<open>id\<close>, \<open>messages\<close>, \<open>created_at\<close>, \<open>system_prompt\<close>.
\<close>

definition Session_fields ::
  "json \<Rightarrow> error + json \<times> (json \<times> json \<times> json) list \<times> json \<times> json" where
  "Session_fields data =
     (case subscript data ''id'' of Inl e \<Rightarrow> Inl e | Inr i \<Rightarrow>
      (case subscript data ''messages'' of Inl e \<Rightarrow> Inl e | Inr ms \<Rightarrow>
       (case iterate ms of Inl e \<Rightarrow> Inl e | Inr ds \<Rightarrow>
        (case Messages_fields ds of Inl e \<Rightarrow> Inl e | Inr fs \<Rightarrow>
         (case subscript data ''created_at'' of Inl e \<Rightarrow> Inl e | Inr c \<Rightarrow>
            Inr (i, fs, c, dict_get data ''system_prompt''))))))"

text \<open>The declared field types: \<open>str\<close>, and \<open>Optional[str]\<close>.\<close>

fun as_str :: "json \<Rightarrow> string option" where
  "as_str (JStr s) = Some s"
| "as_str _ = None"

fun as_optional_str :: "json \<Rightarrow> string option option" where
  "as_optional_str JNull = Some None"
| "as_optional_str (JStr s) = Some (Some s)"
| "as_optional_str _ = None"

definition Message_of :: "json \<times> json \<times> json \<Rightarrow> Message option" where
  "Message_of f =
     (case f of (r, c, t) \<Rightarrow>
      (case (as_str r, as_str c, as_str t) of
         (Some r', Some c', Some t') \<Rightarrow> Some \<lparr>role = r', content = c', timestamp = t'\<rparr>
       | _ \<Rightarrow> None))"

fun Messages_of :: "(json \<times> json \<times> json) list \<Rightarrow> Message list option" where
  "Messages_of [] = Some []"
| "Messages_of (f # fs) =
     (case Message_of f of None \<Rightarrow> None | Some m \<Rightarrow>
      (case Messages_of fs of None \<Rightarrow> None | Some ms \<Rightarrow> Some (m # ms)))"

text \<open>
  \<open>Session.from_dict\<close>: the constructor arguments are fetched first (KeyError and
  TypeError arise there, in Python's order), then the object is built.
\<close>

definition from_dict :: "json \<Rightarrow> error + Session" where
  "from_dict data =
     (case Session_fields data of Inl e \<Rightarrow> Inl e
      | Inr (i, fs, c, p) \<Rightarrow>
        (case (as_str i, Messages_of fs, as_str c, as_optional_str p) of
           (Some i', Some ms, Some c', Some p') \<Rightarrow>
             Inr \<lparr>id_s = i', messages = ms, created_at = c', system_prompt = p'\<rparr>
         | _ \<Rightarrow> Inl IllTyped))"

section \<open>JSON text (json.dump, json.load)\<close>

text \<open>
  \<open>json.dump\<close> writes a \<open>str\<close> with every character outside ASCII as an escape
  \<open>\uXXXX\<close>, a character beyond U+FFFF as the two escapes of its surrogate pair, and a
  surrogate code point as its own escape. \<open>json.load\<close> reads an escape of a high
  surrogate (D800 to DBFF) that is followed by an escape of a low surrogate (DC00 to
  DFFF) as one character. So a \<open>str\<close> that holds a high surrogate immediately followed by
  a low surrogate is read back with the two code points joined into one character, from
  left to right; every other \<open>str\<close> is read back as it was written.

  In the byte form of a \<open>str\<close> a surrogate is \<open>ED\<close>, a byte \<open>A0\<close> to \<open>AF\<close> (high) or \<open>B0\<close>
  to \<open>BF\<close> (low), and one more byte; the joined character has four bytes.
\<close>

definition high_surrogate :: "char \<Rightarrow> char \<Rightarrow> bool" where
  "high_surrogate a b \<longleftrightarrow> a = CHR 0xED \<and> CHR 0xA0 \<le> b \<and> b \<le> CHR 0xAF"

definition low_surrogate :: "char \<Rightarrow> char \<Rightarrow> bool" where
  "low_surrogate a b \<longleftrightarrow> a = CHR 0xED \<and> CHR 0xB0 \<le> b \<and> b \<le> CHR 0xBF"

text \<open>
  The character \<open>0x10000 + (high - 0xD800) * 0x400 + (low - 0xDC00)\<close> in UTF-8, from the
  second and third bytes of the high and of the low surrogate.
\<close>

definition join_surrogates :: "char \<Rightarrow> char \<Rightarrow> char \<Rightarrow> char \<Rightarrow> string" where
  "join_surrogates b c e f =
     (let hi = (of_char b - 0xA0) * 64 + (of_char c - 0x80) :: nat;
          lo = (of_char e - 0xB0) * 64 + (of_char f - 0x80) :: nat;
          cp = 0x10000 + hi * 1024 + lo
      in [char_of (0xF0 + cp div 262144), char_of (0x80 + (cp div 4096) mod 64),
          char_of (0x80 + (cp div 64) mod 64), char_of (0x80 + cp mod 64)])"

text \<open>What a \<open>str\<close> written by \<open>json.dump\<close> is read back as by \<open>json.load\<close>.\<close>

fun json_str :: "string \<Rightarrow> string" where
  "json_str (a # b # c # d # e # f # rest) =
     (if high_surrogate a b \<and> low_surrogate d e then join_surrogates b c e f @ json_str rest
      else a # json_str (b # c # d # e # f # rest))"
| "json_str s = s"

text \<open>Whether a \<open>str\<close> holds a high surrogate immediately followed by a low surrogate.\<close>

fun surrogate_pair :: "string \<Rightarrow> bool" where
  "surrogate_pair (a # b # c # d # e # f # rest) =
     ((high_surrogate a b \<and> low_surrogate d e) \<or> surrogate_pair (b # c # d # e # f # rest))"
| "surrogate_pair s = False"

text \<open>
  What a value written by \<open>json.dump\<close> is read back as: its strings, keys included, are
  read back as \<open>json_str\<close> says; the structure, \<open>null\<close>, booleans and numbers are the same.
\<close>

fun json_reread :: "json \<Rightarrow> json" where
  "json_reread (JStr s) = JStr (json_str s)"
| "json_reread (JArr xs) = JArr (map json_reread xs)"
| "json_reread (JObj kvs) = JObj (map (\<lambda>kv. (json_str (fst kv), json_reread (snd kv))) kvs)"
| "json_reread v = v"

text \<open>The strings a session holds.\<close>

definition Session_strings :: "Session \<Rightarrow> string list" where
  "Session_strings s =
     id_s s # created_at s
       # (case system_prompt s of None \<Rightarrow> [] | Some p \<Rightarrow> [p])
       @ concat (map (\<lambda>m. [role m, content m, timestamp m]) (messages s))"

section \<open>Session store (session.py: SessionManager)\<close>

text \<open>
  A \<open>Session\<close> is a mutable object that the dictionary \<open>_sessions\<close>, the attribute
  \<open>current_session\<close> and the caller share by reference. The model keeps the objects in
  a heap (\<open>objects\<close>, a reference is an index into it, a new object is appended) and
  references everywhere else.
  \<^item> \<open>sessions\<close> is the dictionary \<open>_sessions\<close> in its insertion order: \<open>d[k] = v\<close> is
    \<open>AList.update\<close> (an old key keeps its place, a new one goes last), \<open>del d[k]\<close> is
    \<open>AList.delete\<close>, \<open>k in d\<close> is \<open>map_of d k \<noteq> None\<close>.
  \<^item> \<open>sessions_dir\<close> is the directory: its regular files by name, each either a parsed
    JSON document or text that \<open>json.load\<close> rejects. Opening a file for writing can
    fail (see \<open>save_session\<close>); \<open>exists\<close>, \<open>unlink\<close> and reading a file that exists do not.
  \<^item> \<open>uuid.uuid4()\<close> and \<open>datetime.now().isoformat()\<close> are drawn by the environment:
    every operation that calls them takes the values drawn as arguments.
  An operation that can raise returns the exception (\<open>Inl\<close>) or its value (\<open>Inr\<close>)
  together with the store as the call leaves it.
\<close>

datatype file_text = Garbage | Document json

record SessionManager =
  objects :: "Session list"
  sessions :: "(string \<times> nat) list"
  current_session :: "nat option"
  sessions_dir :: "(string \<times> file_text) list"

definition session_file :: "string \<Rightarrow> string" where
  "session_file session_id = session_id @ ''.json''"

text \<open>The constructor call \<open>Session(...)\<close>: a new object on the heap.\<close>

definition new_object :: "Session \<Rightarrow> SessionManager \<Rightarrow> nat \<times> SessionManager" where
  "new_object session self =
     (length (objects self), self\<lparr>objects := objects self @ [session]\<rparr>)"

definition create_session ::
  "string option \<Rightarrow> string \<Rightarrow> string \<Rightarrow> SessionManager \<Rightarrow> nat \<times> SessionManager" where
  "create_session prompt uuid now self =
     (case new_object \<lparr>id_s = uuid, messages = [], created_at = now, system_prompt = prompt\<rparr> self
      of (session, self1) \<Rightarrow>
        (session,
         self1\<lparr>sessions := AList.update uuid session (sessions self1),
               current_session := Some session\<rparr>))"

text \<open>
  \<open>list.sort(key=created_at, reverse=True)\<close> is stable: elements with equal keys keep
  their order. \<open>sort_key\<close> is a stable ascending sort, so the descending one is the
  reverse of the ascending sort of the reversed list.
\<close>

definition list_sessions :: "SessionManager \<Rightarrow> nat list" where
  "list_sessions self =
     (let sessions0 = map snd (sessions self)
      in rev (sort_key (\<lambda>s. created_at (objects self ! s)) (rev sessions0)))"

definition get_session :: "string \<Rightarrow> SessionManager \<Rightarrow> (error + nat) \<times> SessionManager" where
  "get_session session_id self =
     (case map_of (sessions self) session_id of
        None \<Rightarrow> (Inl (KeyError (''Session '' @ session_id @ '' not found'')), self)
      | Some session \<Rightarrow> (Inr session, self))"

definition switch_to_session ::
  "string \<Rightarrow> SessionManager \<Rightarrow> (error + unit) \<times> SessionManager" where
  "switch_to_session session_id self =
     (case get_session session_id self of
        (Inl e, self1) \<Rightarrow> (Inl e, self1)
      | (Inr session, self1) \<Rightarrow> (Inr (), self1\<lparr>current_session := Some session\<rparr>))"


text \<open>
  A file is the value \<open>json.load\<close> reads from its text, or text that \<open>json.load\<close> rejects.
  \<open>json.dump(value, f)\<close> leaves the file that reads back as \<open>json_reread value\<close>.
\<close>

definition json_dump :: "json \<Rightarrow> file_text" where
  "json_dump v = Document (json_reread v)"

text \<open>
  \<open>save_session\<close>. \<open>open(session_file, "w")\<close> raises for a name the file system does not
  take (\<open>FileNotFoundError\<close> for an id with a separator such as \<open>a/b\<close>, whose directory
  does not exist, \<open>ValueError\<close> for an id with a NUL, \<open>OSError\<close> for a name that is too
  long or a directory that cannot be written). Which names it takes is the file
  system's matter: \<open>open_w\<close> gives the exception that \<open>open\<close> raises for a file name, if
  any. When \<open>open\<close> raises, nothing is written and the exception reaches the caller. An
  error while the opened file is written is not modelled.
\<close>

definition save_session ::
  "(string \<Rightarrow> error option) \<Rightarrow> nat \<Rightarrow> SessionManager \<Rightarrow> (error + unit) \<times> SessionManager" where
  "save_session open_w session self =
     (case open_w (session_file (id_s (objects self ! session))) of
        Some e \<Rightarrow> (Inl e, self)
      | None \<Rightarrow>
          (Inr (),
           self\<lparr>sessions_dir :=
                  AList.update (session_file (id_s (objects self ! session)))
                    (json_dump (to_dict (objects self ! session))) (sessions_dir self)\<rparr>))"

text \<open>\<open>json.load\<close> on an open file.\<close>

definition json_load :: "file_text \<Rightarrow> error + json" where
  "json_load f = (case f of Garbage \<Rightarrow> Inl JSONDecodeError | Document data \<Rightarrow> Inr data)"

definition load_session :: "string \<Rightarrow> SessionManager \<Rightarrow> (error + nat) \<times> SessionManager" where
  "load_session session_id self =
     (case map_of (sessions_dir self) (session_file session_id) of
        None \<Rightarrow> (Inl (KeyError (''Session file for '' @ session_id @ '' not found'')), self)
      | Some f \<Rightarrow>
          (case json_load f of
             Inl e \<Rightarrow> (Inl e, self)
           | Inr data \<Rightarrow>
               (case from_dict data of
                  Inl e \<Rightarrow> (Inl e, self)
                | Inr s \<Rightarrow>
                    (case new_object s self of
                       (session, self1) \<Rightarrow>
                         (Inr session,
                          self1\<lparr>sessions := AList.update session_id session (sessions self1)\<rparr>)))))"

text \<open>\<open>glob("*.json")\<close>: the files whose name ends in \<open>.json\<close>, in the directory's order.\<close>

definition is_json_name :: "string \<Rightarrow> bool" where
  "is_json_name name = (drop (length name - 5) name = ''.json'')"

text \<open>\<open>except (json.JSONDecodeError, KeyError): continue\<close>.\<close>

fun skipped :: "error \<Rightarrow> bool" where
  "skipped JSONDecodeError = True"
| "skipped (KeyError k) = True"
| "skipped _ = False"

text \<open>The body of the loop of \<open>load_all_sessions\<close> for one file: parse, build, insert.\<close>

definition load_one :: "file_text \<Rightarrow> SessionManager \<Rightarrow> (error + unit) \<times> SessionManager" where
  "load_one f self =
     (case json_load f of
        Inl e \<Rightarrow> (Inl e, self)
      | Inr data \<Rightarrow>
          (case from_dict data of
             Inl e \<Rightarrow> (Inl e, self)
           | Inr s \<Rightarrow>
               (case new_object s self of
                  (session, self1) \<Rightarrow>
                    (Inr (), self1\<lparr>sessions := AList.update (id_s s) session (sessions self1)\<rparr>))))"

text \<open>
  The loop of \<open>load_all_sessions\<close> over the files found. An exception other than the two
  caught ends the loop and goes on to the caller; the sessions loaded before it stay.
\<close>

fun load_files :: "(string \<times> file_text) list \<Rightarrow> SessionManager \<Rightarrow> (error + unit) \<times> SessionManager" where
  "load_files [] self = (Inr (), self)"
| "load_files (nf # rest) self =
     (case load_one (snd nf) self of
        (Inl e, self1) \<Rightarrow> if skipped e then load_files rest self1 else (Inl e, self1)
      | (Inr u, self1) \<Rightarrow> load_files rest self1)"

text \<open>
  \<open>load_all_sessions\<close>. The directory exists (the constructor creates it), so the early
  return for a missing directory is not taken. The current session becomes the first of
  \<open>list_sessions\<close> when there is one.
\<close>

definition load_all_sessions :: "SessionManager \<Rightarrow> (error + unit) \<times> SessionManager" where
  "load_all_sessions self =
     (case load_files (filter (\<lambda>nf. is_json_name (fst nf)) (sessions_dir self)) self of
        (Inl e, self1) \<Rightarrow> (Inl e, self1)
      | (Inr u, self1) \<Rightarrow>
          (case list_sessions self1 of
             [] \<Rightarrow> (Inr (), self1)
           | s # _ \<Rightarrow> (Inr (), self1\<lparr>current_session := Some s\<rparr>)))"

text \<open>
  \<open>SessionManager.__init__\<close> over the directory as it is found (after \<open>mkdir\<close>); an
  exception that \<open>load_all_sessions\<close> lets through ends the construction.
\<close>

definition init :: "(string \<times> file_text) list \<Rightarrow> string \<Rightarrow> string \<Rightarrow> error + SessionManager" where
  "init dir uuid now =
     (let self = \<lparr>objects = [], sessions = [], current_session = None, sessions_dir = dir\<rparr>
      in (case load_all_sessions self of
            (Inl e, self1) \<Rightarrow> Inl e
          | (Inr u, self1) \<Rightarrow>
              if sessions self1 = [] then Inr (snd (create_session None uuid now self1))
              else Inr self1))"



section \<open>Completion client (llm.py: LLMClient)\<close>

text \<open>
  The completion service is outside the program. A request either raises when it is
  opened, or gives a response that delivers chunks and then ends or raises. An exception
  is what the handlers of \<open>chat_stream\<close> see of it: whether it is an instance of
  \<open>APIError\<close>, whether of \<open>APITimeoutError\<close>, and its text \<open>str(e)\<close>. It is an instance of
  \<open>Exception\<close>; an interrupt or a cancellation is none and is not modelled.
  A chunk is the list of its choices, each the \<open>delta.content\<close> it carries.
\<close>

datatype api_exception =
  ApiException (isinstance_APIError: bool) (isinstance_APITimeoutError: bool) (str_of: string)

datatype chunk = Chunk (choices: "string option list")

datatype completion =
    Raises api_exception
  | Streams "chunk list" "api_exception option"

datatype LLMError = LLMError string

record LLMClient =
  model :: string
  client_system_prompt :: "string option"

text \<open>The three \<open>except\<close> clauses of \<open>chat_stream\<close>, in their order.\<close>

definition wrap_exception :: "api_exception \<Rightarrow> LLMError" where
  "wrap_exception e =
     (if isinstance_APIError e then LLMError (''API error: '' @ str_of e)
      else if isinstance_APITimeoutError e then LLMError (''Request timed out: '' @ str_of e)
      else LLMError (''Unexpected error: '' @ str_of e))"

text \<open>
  The loop over the response:
  \<open>if chunk.choices and chunk.choices[0].delta.content: yield chunk.choices[0].delta.content\<close>.
  An empty list, \<open>None\<close> and the empty string are false.
\<close>

fun yielded :: "chunk list \<Rightarrow> string list" where
  "yielded [] = []"
| "yielded (c # cs) =
     (case choices c of
        [] \<Rightarrow> yielded cs
      | d # _ \<Rightarrow> if truthy d then the d # yielded cs else yielded cs)"

text \<open>
  \<open>chat_stream\<close> is a generator: the model gives the fragments it yields, in order, and
  then the \<open>LLMError\<close> it raises, if any. \<open>create\<close> is the service
  (\<open>client.chat.completions.create\<close>), called with the model name and the messages.
\<close>

definition chat_stream ::
  "(string \<Rightarrow> api_message list \<Rightarrow> completion) \<Rightarrow> LLMClient \<Rightarrow> api_message list
     \<Rightarrow> string list \<times> LLMError option" where
  "chat_stream create self messages0 =
     (let messages1 =
            (if truthy (client_system_prompt self)
             then \<lparr>api_role = ''system'', api_content = the (client_system_prompt self)\<rparr> # messages0
             else messages0)
      in (case create (model self) messages1 of
            Raises e \<Rightarrow> ([], Some (wrap_exception e))
          | Streams cs None \<Rightarrow> (yielded cs, None)
          | Streams cs (Some e) \<Rightarrow> (yielded cs, Some (wrap_exception e))))"

section \<open>User interface (ui.py: ChatUI)\<close>

text \<open>
  The console is the list of the panels printed so far; rendering is not modelled, but
  for one thing: \<open>display_error\<close> hands its message to \<open>Panel\<close> as a \<open>str\<close>, which
  \<open>console.print\<close> renders as Rich console markup, and Rich raises \<open>MarkupError\<close> for a
  text it cannot parse (a closing tag such as \<open>[/INST]\<close> that matches no open tag).
  Which texts Rich parses is the library's matter: \<open>markup_ok\<close> tells whether it parses a
  text. When it raises, nothing is printed.
\<close>

datatype panel = ErrorPanel string | InfoPanel string

record ChatUI =
  console :: "panel list"
  streaming_content :: string

definition add_streaming_content :: "string \<Rightarrow> ChatUI \<Rightarrow> ChatUI" where
  "add_streaming_content chunk self = self\<lparr>streaming_content := streaming_content self @ chunk\<rparr>"

definition clear_streaming_content :: "ChatUI \<Rightarrow> ChatUI" where
  "clear_streaming_content self = self\<lparr>streaming_content := []\<rparr>"

definition display_error ::
  "(string \<Rightarrow> bool) \<Rightarrow> string \<Rightarrow> ChatUI \<Rightarrow> (error + unit) \<times> ChatUI" where
  "display_error markup_ok message self =
     (if markup_ok message
      then (Inr (), self\<lparr>console := console self @ [ErrorPanel message]\<rparr>)
      else (Inl MarkupError, self))"

section \<open>One chat turn (main.py: run_chat_loop, lines 142 to 182)\<close>

text \<open>\<open>session_manager.current_session.add_message(m)\<close>: the object is updated in place.\<close>

definition object_add_message :: "nat \<Rightarrow> Message \<Rightarrow> SessionManager \<Rightarrow> SessionManager" where
  "object_add_message session message self =
     self\<lparr>objects := (objects self)[session := add_message (objects self ! session) message]\<rparr>"

text \<open>The body of \<open>async for chunk in llm_client.chat_stream(messages)\<close>, fragment by fragment.\<close>

fun consume :: "string list \<Rightarrow> string \<times> ChatUI \<Rightarrow> string \<times> ChatUI" where
  "consume [] (assistant_content, ui) = (assistant_content, ui)"
| "consume (chunk # rest) (assistant_content, ui) =
     consume rest (assistant_content @ chunk, add_streaming_content chunk ui)"

text \<open>
  The part of the loop body that handles a message of the user (not empty, no command).
  \<open>now_user\<close> and \<open>now_assistant\<close> are the timestamps drawn for the two messages. The
  result is the exception that leaves the loop body, if any, and the store and the
  interface as the turn leaves them.
  \<^item> With \<open>current_session\<close> unset, the first attribute access raises AttributeError.
  \<^item> The first \<open>save_session\<close> stands before the \<open>try\<close>: its exception leaves the loop.
  \<^item> The handler catches \<open>LLMError\<close> only: an exception of the second \<open>save_session\<close>
    leaves the loop, and so does one that \<open>display_error\<close> raises inside the handler,
    before \<open>clear_streaming_content\<close> is reached.
\<close>

definition chat_turn ::
  "(string \<Rightarrow> error option) \<Rightarrow> (string \<Rightarrow> bool)
     \<Rightarrow> (string \<Rightarrow> api_message list \<Rightarrow> completion) \<Rightarrow> LLMClient
     \<Rightarrow> string \<Rightarrow> string \<Rightarrow> string
     \<Rightarrow> SessionManager \<times> ChatUI \<Rightarrow> (error + unit) \<times> SessionManager \<times> ChatUI" where
  "chat_turn open_w markup_ok create llm_client user_input now_user now_assistant state =
     (case state of (session_manager, ui) \<Rightarrow>
      (case current_session session_manager of
         None \<Rightarrow> (Inl AttributeError, session_manager, ui)
       | Some cur \<Rightarrow>
           let user_message = \<lparr>role = ''user'', content = user_input, timestamp = now_user\<rparr>;
               sm1 = object_add_message cur user_message session_manager
           in (case save_session open_w cur sm1 of
                 (Inl e, sm2) \<Rightarrow> (Inl e, sm2, ui)
               | (Inr u, sm2) \<Rightarrow>
                   let ui1 = clear_streaming_content ui;
                       messages0 = fst (get_messages_for_api (objects sm2 ! cur))
                   in (case chat_stream create llm_client messages0 of
                         (chunks, failure) \<Rightarrow>
                           (case consume chunks ([], ui1) of
                              (assistant_content, ui2) \<Rightarrow>
                                (case failure of
                                   None \<Rightarrow>
                                     if assistant_content \<noteq> []
                                     then (case save_session open_w cur
                                                  (object_add_message cur
                                                     \<lparr>role = ''assistant'',
                                                      content = assistant_content,
                                                      timestamp = now_assistant\<rparr> sm2) of
                                             (Inl e, sm3) \<Rightarrow> (Inl e, sm3, ui2)
                                           | (Inr u, sm3) \<Rightarrow>
                                               (Inr (), sm3, clear_streaming_content ui2))
                                     else (Inr (), sm2, clear_streaming_content ui2)
                                 | Some (LLMError e) \<Rightarrow>
                                     (case display_error markup_ok (''LLM error: '' @ e) ui2 of
                                        (Inl x, ui3) \<Rightarrow> (Inl x, sm2, ui3)
                                      | (Inr u, ui3) \<Rightarrow>
                                          (Inr (), sm2, clear_streaming_content ui3))))))))"

section \<open>The fragment rule in the words of the specification\<close>

text \<open>
  The payload of a chunk as the specification speaks of it: absent (\<open>None\<close>) when the
  chunk has no choice or its first choice carries no content, the text otherwise.
\<close>

definition payload :: "chunk \<Rightarrow> string option" where
  "payload c = (case choices c of [] \<Rightarrow> None | d # _ \<Rightarrow> d)"

text \<open>
  The specification's accumulation: an absent payload is skipped, every other fragment,
  the empty string too, is appended in arrival order.
\<close>

fun spec_accumulate :: "string option list \<Rightarrow> string" where
  "spec_accumulate [] = []"
| "spec_accumulate (None # fs) = spec_accumulate fs"
| "spec_accumulate (Some s # fs) = s @ spec_accumulate fs"

section \<open>Consistency of the store\<close>



section \<open>Theorems\<close>

lemma truthy_Some [simp]: "truthy (Some s) = (s \<noteq> [])"
  by (simp add: truthy_def)

lemma truthy_None [simp]: "truthy None = False"
  by (simp add: truthy_def)

subsection \<open>The projection for the API\<close>

text \<open>
  C5. A session whose system prompt is a non-empty text \<open>P\<close> (such as \<open>"P"\<close>) and that
  stores exactly two messages projects to exactly three entries: the system entry with
  content \<open>P\<close>, then the two stored messages as role and content, in their order; and
  the session is the same after the call, its list of messages included.
\<close>

theorem get_messages_for_api_two_messages:
  assumes "system_prompt s = Some P" and "P \<noteq> []" and "messages s = [m1, m2]"
  shows "get_messages_for_api s =
           ([\<lparr>api_role = ''system'', api_content = P\<rparr>,
             \<lparr>api_role = role m1, api_content = content m1\<rparr>,
             \<lparr>api_role = role m2, api_content = content m2\<rparr>], s)
         \<and> length (fst (get_messages_for_api s)) = 3
         \<and> messages (snd (get_messages_for_api s)) = [m1, m2]"
  using assms by (simp add: get_messages_for_api_def Let_def)

theorem get_messages_for_api_two_messages_witness:
  "get_messages_for_api
     \<lparr>id_s = ''s1'',
      messages = [\<lparr>role = ''user'', content = ''Hello'', timestamp = ''t1''\<rparr>,
                  \<lparr>role = ''assistant'', content = ''Hi there'', timestamp = ''t2''\<rparr>],
      created_at = ''t0'', system_prompt = Some ''P''\<rparr> =
     ([\<lparr>api_role = ''system'', api_content = ''P''\<rparr>,
       \<lparr>api_role = ''user'', api_content = ''Hello''\<rparr>,
       \<lparr>api_role = ''assistant'', api_content = ''Hi there''\<rparr>],
      \<lparr>id_s = ''s1'',
       messages = [\<lparr>role = ''user'', content = ''Hello'', timestamp = ''t1''\<rparr>,
                   \<lparr>role = ''assistant'', content = ''Hi there'', timestamp = ''t2''\<rparr>],
       created_at = ''t0'', system_prompt = Some ''P''\<rparr>)"
  using get_messages_for_api_two_messages
    [of "\<lparr>id_s = ''s1'',
         messages = [\<lparr>role = ''user'', content = ''Hello'', timestamp = ''t1''\<rparr>,
                     \<lparr>role = ''assistant'', content = ''Hi there'', timestamp = ''t2''\<rparr>],
         created_at = ''t0'', system_prompt = Some ''P''\<rparr>" "''P''"
        "\<lparr>role = ''user'', content = ''Hello'', timestamp = ''t1''\<rparr>"
        "\<lparr>role = ''assistant'', content = ''Hi there'', timestamp = ''t2''\<rparr>"]
  by simp

text \<open>
  C6, as the specification states it, fails: a session with system prompt \<open>"P"\<close> whose
  stored messages already hold a message of role \<open>system\<close> projects to a list with the
  synthetic entry in front of the stored one.
\<close>

theorem system_entry_added_again_counterexample:
  "''system'' \<in> set (map role (messages
      \<lparr>id_s = ''s1'', messages = [\<lparr>role = ''system'', content = ''Q'', timestamp = ''t1''\<rparr>],
       created_at = ''t0'', system_prompt = Some ''P''\<rparr>))
   \<and> fst (get_messages_for_api
      \<lparr>id_s = ''s1'', messages = [\<lparr>role = ''system'', content = ''Q'', timestamp = ''t1''\<rparr>],
       created_at = ''t0'', system_prompt = Some ''P''\<rparr>) =
     [\<lparr>api_role = ''system'', api_content = ''P''\<rparr>,
      \<lparr>api_role = ''system'', api_content = ''Q''\<rparr>]"
  by (simp add: get_messages_for_api_def Let_def)

text \<open>
  C6 as amended. For every session whose system prompt is a non-empty text \<open>P\<close>, the
  projection is the synthetic system entry followed by every stored message, whatever
  the roles of the stored messages (a stored message of role \<open>system\<close> is kept as well,
  after the synthetic one); the synthetic entry is not stored: the session and its
  messages are the same after the call.
\<close>

theorem system_entry_always_prepended:
  assumes "system_prompt s = Some P" and "P \<noteq> []"
  shows "fst (get_messages_for_api s) =
           \<lparr>api_role = ''system'', api_content = P\<rparr>
             # map (\<lambda>m. \<lparr>api_role = role m, api_content = content m\<rparr>) (messages s)
         \<and> snd (get_messages_for_api s) = s"
  using assms by (simp add: get_messages_for_api_def Let_def)

theorem system_entry_always_prepended_witness:
  "fst (get_messages_for_api
      \<lparr>id_s = ''s1'', messages = [\<lparr>role = ''system'', content = ''Q'', timestamp = ''t1''\<rparr>],
       created_at = ''t0'', system_prompt = Some ''P''\<rparr>) =
     [\<lparr>api_role = ''system'', api_content = ''P''\<rparr>,
      \<lparr>api_role = ''system'', api_content = ''Q''\<rparr>]
   \<and> snd (get_messages_for_api
      \<lparr>id_s = ''s1'', messages = [\<lparr>role = ''system'', content = ''Q'', timestamp = ''t1''\<rparr>],
       created_at = ''t0'', system_prompt = Some ''P''\<rparr>) =
      \<lparr>id_s = ''s1'', messages = [\<lparr>role = ''system'', content = ''Q'', timestamp = ''t1''\<rparr>],
       created_at = ''t0'', system_prompt = Some ''P''\<rparr>"
  using system_entry_always_prepended
    [of "\<lparr>id_s = ''s1'', messages = [\<lparr>role = ''system'', content = ''Q'', timestamp = ''t1''\<rparr>],
         created_at = ''t0'', system_prompt = Some ''P''\<rparr>" "''P''"]
  by simp

text \<open>
  C9. With the empty string as system prompt the projection is the stored messages
  alone; the synthetic entry is there exactly when the system prompt is neither absent
  nor empty.
\<close>

theorem empty_system_prompt_not_projected:
  "(system_prompt s = Some [] \<longrightarrow>
      fst (get_messages_for_api s) =
        map (\<lambda>m. \<lparr>api_role = role m, api_content = content m\<rparr>) (messages s))
   \<and> (length (fst (get_messages_for_api s)) = Suc (length (messages s))
        \<longleftrightarrow> system_prompt s \<noteq> None \<and> system_prompt s \<noteq> Some [])
   \<and> (length (fst (get_messages_for_api s)) = length (messages s)
        \<longleftrightarrow> system_prompt s = None \<or> system_prompt s = Some [])"
  by (cases "system_prompt s") (auto simp: get_messages_for_api_def Let_def)

theorem empty_system_prompt_not_projected_witness:
  "fst (get_messages_for_api
      \<lparr>id_s = ''s1'', messages = [\<lparr>role = ''user'', content = ''Hello'', timestamp = ''t1''\<rparr>],
       created_at = ''t0'', system_prompt = Some []\<rparr>) =
     [\<lparr>api_role = ''user'', api_content = ''Hello''\<rparr>]"
  using empty_system_prompt_not_projected
    [of "\<lparr>id_s = ''s1'', messages = [\<lparr>role = ''user'', content = ''Hello'', timestamp = ''t1''\<rparr>],
         created_at = ''t0'', system_prompt = Some []\<rparr>"]
  by simp

subsection \<open>Serialisation round trip\<close>

lemma Message_fields_to_dict:
  "Message_fields (Message_to_dict m) = Inr (JStr (role m), JStr (content m), JStr (timestamp m))"
  by (simp add: Message_fields_def Message_to_dict_def)

lemma Messages_fields_to_dict:
  "Messages_fields (map Message_to_dict ms) =
     Inr (map (\<lambda>m. (JStr (role m), JStr (content m), JStr (timestamp m))) ms)"
  by (induction ms) (simp_all add: Message_fields_to_dict)

lemma Messages_of_to_dict:
  "Messages_of (map (\<lambda>m. (JStr (role m), JStr (content m), JStr (timestamp m))) ms) = Some ms"
  by (induction ms) (simp_all add: Message_of_def)

lemma Session_fields_to_dict:
  "Session_fields (to_dict s) =
     Inr (JStr (id_s s),
          map (\<lambda>m. (JStr (role m), JStr (content m), JStr (timestamp m))) (messages s),
          JStr (created_at s),
          (case system_prompt s of None \<Rightarrow> JNull | Some p \<Rightarrow> JStr p))"
  by (simp add: Session_fields_def to_dict_def Messages_fields_to_dict)

lemma from_dict_to_dict: "from_dict (to_dict s) = Inr s"
  by (cases "system_prompt s")
     (simp_all add: from_dict_def Session_fields_to_dict Messages_of_to_dict)

lemma map_of_update_same: "map_of (AList.update k v al) k = Some v"
  by (simp add: update_conv')

lemma map_of_update_other: "k' \<noteq> k \<Longrightarrow> map_of (AList.update k v al) k' = map_of al k'"
  by (simp add: update_conv')

lemma json_str_id: "\<not> surrogate_pair s \<Longrightarrow> json_str s = s"
  by (induction s rule: json_str.induct) auto

lemma reread_Message_to_dict:
  assumes "\<not> surrogate_pair (role m)" and "\<not> surrogate_pair (content m)"
    and "\<not> surrogate_pair (timestamp m)"
  shows "json_reread (Message_to_dict m) = Message_to_dict m"
  using assms by (simp add: Message_to_dict_def json_str_id high_surrogate_def)

lemma reread_to_dict:
  assumes "\<forall>x \<in> set (Session_strings s). \<not> surrogate_pair x"
  shows "json_reread (to_dict s) = to_dict s"
proof -
  have ms: "map json_reread (map Message_to_dict (messages s)) = map Message_to_dict (messages s)"
  proof -
    have "json_reread (Message_to_dict m) = Message_to_dict m" if "m \<in> set (messages s)" for m
    proof (rule reread_Message_to_dict)
      from that assms show "\<not> surrogate_pair (role m)"
        and "\<not> surrogate_pair (content m)" and "\<not> surrogate_pair (timestamp m)"
        by (auto simp: Session_strings_def)
    qed
    then show ?thesis by (simp add: map_idI)
  qed
  from assms have "\<not> surrogate_pair (id_s s)" and "\<not> surrogate_pair (created_at s)"
    by (simp_all add: Session_strings_def)
  moreover have "json_reread (case system_prompt s of None \<Rightarrow> JNull | Some p \<Rightarrow> JStr p) =
                   (case system_prompt s of None \<Rightarrow> JNull | Some p \<Rightarrow> JStr p)"
    using assms by (cases "system_prompt s") (simp_all add: Session_strings_def json_str_id)
  ultimately show ?thesis
    using ms by (simp add: to_dict_def json_str_id high_surrogate_def)
qed

text \<open>
  C3, as the specification states it, fails in two ways. A session whose message content
  is a high surrogate followed by a low surrogate (U+D83D, U+DE00, as two fragments of a
  stream can leave them) is saved and loaded without an exception, and the loaded
  message holds the one character U+1F600 instead: the session is not the one saved. A
  session whose id is \<open>a/b\<close>, on a file system that has no directory \<open>a\<close>, is not saved
  at all: \<open>open\<close> raises, the directory stays empty and the load raises KeyError.
\<close>

theorem save_load_surrogate_counterexample:
  "fst (load_session ''s1''
     ((snd (save_session Map.empty 0
         \<lparr>objects = [\<lparr>id_s = ''s1'',
                      messages = [\<lparr>role = ''assistant'',
                                   content = [CHR 0xED, CHR 0xA0, CHR 0xBD, CHR 0xED, CHR 0xB8, CHR 0x80],
                                   timestamp = ''t1''\<rparr>],
                      created_at = ''t0'', system_prompt = None\<rparr>],
          sessions = [(''s1'', 0)], current_session = Some 0, sessions_dir = []\<rparr>))
        \<lparr>sessions := []\<rparr>)) = Inr 1
   \<and> objects (snd (load_session ''s1''
     ((snd (save_session Map.empty 0
         \<lparr>objects = [\<lparr>id_s = ''s1'',
                      messages = [\<lparr>role = ''assistant'',
                                   content = [CHR 0xED, CHR 0xA0, CHR 0xBD, CHR 0xED, CHR 0xB8, CHR 0x80],
                                   timestamp = ''t1''\<rparr>],
                      created_at = ''t0'', system_prompt = None\<rparr>],
          sessions = [(''s1'', 0)], current_session = Some 0, sessions_dir = []\<rparr>))
        \<lparr>sessions := []\<rparr>))) ! 1
     = \<lparr>id_s = ''s1'',
        messages = [\<lparr>role = ''assistant'',
                     content = [CHR 0xF0, CHR 0x9F, CHR 0x98, CHR 0x80],
                     timestamp = ''t1''\<rparr>],
        created_at = ''t0'', system_prompt = None\<rparr>
   \<and> [CHR 0xF0, CHR 0x9F, CHR 0x98, CHR 0x80]
       \<noteq> [CHR 0xED, CHR 0xA0, CHR 0xBD, CHR 0xED, CHR 0xB8, CHR 0x80]
   \<and> save_session [''a/b.json'' \<mapsto> OSError] 0
         \<lparr>objects = [\<lparr>id_s = ''a/b'', messages = [], created_at = ''t0'', system_prompt = None\<rparr>],
          sessions = [(''a/b'', 0)], current_session = Some 0, sessions_dir = []\<rparr>
       = (Inl OSError,
          \<lparr>objects = [\<lparr>id_s = ''a/b'', messages = [], created_at = ''t0'', system_prompt = None\<rparr>],
           sessions = [(''a/b'', 0)], current_session = Some 0, sessions_dir = []\<rparr>)
   \<and> fst (load_session ''a/b''
         \<lparr>objects = [\<lparr>id_s = ''a/b'', messages = [], created_at = ''t0'', system_prompt = None\<rparr>],
          sessions = [], current_session = Some 0, sessions_dir = []\<rparr>)
       = Inl (KeyError ''Session file for a/b not found'')"
  by (simp add: save_session_def load_session_def session_file_def json_dump_def json_load_def
        to_dict_def Message_to_dict_def from_dict_def Session_fields_def Message_fields_def
        Message_of_def new_object_def high_surrogate_def low_surrogate_def join_surrogates_def
        less_eq_char_def char_of_def bit_Suc_0_iff)

text \<open>
  C3 as amended. Deserialising a serialised session gives the session back, for every
  session. For a session whose file the file system lets the program open for writing,
  and none of whose strings (id, creation time, system prompt, and role, content and
  timestamp of each message) holds a high surrogate immediately followed by a low
  surrogate, \<open>save_session\<close> succeeds, and loading the session by its id afterwards,
  whatever the in-memory map holds in between (emptied, as after \<open>clear()\<close>, or anything
  else), succeeds and yields a session equal to the saved one in id, messages (each with
  role, content and timestamp, in order), creation time and system prompt; the loaded
  session is the map's entry for that id.
\<close>

theorem save_load_round_trip:
  assumes "session < length (objects self)"
    and "open_w (session_file (id_s (objects self ! session))) = None"
    and "\<forall>x \<in> set (Session_strings (objects self ! session)). \<not> surrogate_pair x"
  shows "from_dict (to_dict s) = Inr s
         \<and> (\<exists>saved loaded self'.
              save_session open_w session self = (Inr (), saved)
              \<and> load_session (id_s (objects self ! session)) (saved\<lparr>sessions := m\<rparr>)
                  = (Inr loaded, self')
              \<and> objects self' ! loaded = objects self ! session
              \<and> map_of (sessions self') (id_s (objects self ! session)) = Some loaded)"
proof -
  let ?s = "objects self ! session"
  let ?saved = "self\<lparr>sessions_dir :=
                  AList.update (session_file (id_s ?s)) (Document (to_dict ?s)) (sessions_dir self)\<rparr>"
  let ?st = "?saved\<lparr>sessions := m\<rparr>"
  have written: "json_dump (to_dict ?s) = Document (to_dict ?s)"
    using assms(3) by (simp add: json_dump_def reread_to_dict)
  have save: "save_session open_w session self = (Inr (), ?saved)"
    using assms(2) by (simp add: save_session_def written)
  have on_disk: "map_of (sessions_dir ?st) (session_file (id_s ?s)) = Some (Document (to_dict ?s))"
    by (simp add: map_of_update_same)
  have load: "load_session (id_s ?s) ?st =
          (Inr (length (objects ?st)),
           ?st\<lparr>objects := objects ?st @ [?s],
               sessions := AList.update (id_s ?s) (length (objects ?st)) m\<rparr>)"
    using on_disk
    by (simp add: load_session_def json_load_def from_dict_to_dict new_object_def)
  have "\<exists>saved loaded self'.
              save_session open_w session self = (Inr (), saved)
              \<and> load_session (id_s ?s) (saved\<lparr>sessions := m\<rparr>) = (Inr loaded, self')
              \<and> objects self' ! loaded = ?s
              \<and> map_of (sessions self') (id_s ?s) = Some loaded"
    apply (rule exI [where x = ?saved])
    apply (rule exI [where x = "length (objects ?st)"])
    apply (rule exI [where x = "?st\<lparr>objects := objects ?st @ [?s],
               sessions := AList.update (id_s ?s) (length (objects ?st)) m\<rparr>"])
    apply (simp only: save load)
    apply (simp add: map_of_update_same)
    done
  then show ?thesis
    by (simp only: from_dict_to_dict simp_thms)
qed

theorem save_load_round_trip_witness:
  "save_session Map.empty 0
     \<lparr>objects = [\<lparr>id_s = ''s1'',
                  messages = [\<lparr>role = ''user'', content = ''Hello'', timestamp = ''t1''\<rparr>],
                  created_at = ''t0'', system_prompt = Some ''P''\<rparr>],
      sessions = [(''s1'', 0)], current_session = Some 0, sessions_dir = []\<rparr>
   = (Inr (),
      \<lparr>objects = [\<lparr>id_s = ''s1'',
                   messages = [\<lparr>role = ''user'', content = ''Hello'', timestamp = ''t1''\<rparr>],
                   created_at = ''t0'', system_prompt = Some ''P''\<rparr>],
       sessions = [(''s1'', 0)], current_session = Some 0,
       sessions_dir =
         [(''s1.json'',
           Document (to_dict \<lparr>id_s = ''s1'',
                      messages = [\<lparr>role = ''user'', content = ''Hello'', timestamp = ''t1''\<rparr>],
                      created_at = ''t0'', system_prompt = Some ''P''\<rparr>))]\<rparr>)
   \<and> load_session ''s1''
     \<lparr>objects = [\<lparr>id_s = ''s1'',
                  messages = [\<lparr>role = ''user'', content = ''Hello'', timestamp = ''t1''\<rparr>],
                  created_at = ''t0'', system_prompt = Some ''P''\<rparr>],
      sessions = [], current_session = Some 0,
      sessions_dir =
         [(''s1.json'',
           Document (to_dict \<lparr>id_s = ''s1'',
                      messages = [\<lparr>role = ''user'', content = ''Hello'', timestamp = ''t1''\<rparr>],
                      created_at = ''t0'', system_prompt = Some ''P''\<rparr>))]\<rparr>
   = (Inr 1,
      \<lparr>objects = [\<lparr>id_s = ''s1'',
                   messages = [\<lparr>role = ''user'', content = ''Hello'', timestamp = ''t1''\<rparr>],
                   created_at = ''t0'', system_prompt = Some ''P''\<rparr>,
                  \<lparr>id_s = ''s1'',
                   messages = [\<lparr>role = ''user'', content = ''Hello'', timestamp = ''t1''\<rparr>],
                   created_at = ''t0'', system_prompt = Some ''P''\<rparr>],
       sessions = [(''s1'', 1)], current_session = Some 0,
       sessions_dir =
         [(''s1.json'',
           Document (to_dict \<lparr>id_s = ''s1'',
                      messages = [\<lparr>role = ''user'', content = ''Hello'', timestamp = ''t1''\<rparr>],
                      created_at = ''t0'', system_prompt = Some ''P''\<rparr>))]\<rparr>)"
  using save_load_round_trip
    [where session = 0 and open_w = Map.empty and m = "[]"
       and self = "\<lparr>objects = [\<lparr>id_s = ''s1'',
                      messages = [\<lparr>role = ''user'', content = ''Hello'', timestamp = ''t1''\<rparr>],
                      created_at = ''t0'', system_prompt = Some ''P''\<rparr>],
          sessions = [(''s1'', 0)], current_session = Some 0, sessions_dir = []\<rparr>"]
  by (auto simp: load_session_def save_session_def session_file_def json_load_def json_dump_def
        new_object_def Session_strings_def high_surrogate_def to_dict_def Message_to_dict_def
        from_dict_def Session_fields_def Message_fields_def Message_of_def)

text \<open>
  C10. A successful \<open>load_session\<close> returns a new session object built from the record
  in the file named by the argument, and the map then holds that object under the
  argument; no other key of the map changes, so when the record's own id differs from
  the argument, the entry under the record's id is not the one that is written.
\<close>

theorem load_session_key_is_argument:
  assumes "load_session session_id self = (Inr loaded, self')"
  shows "map_of (sessions self') session_id = Some loaded
         \<and> loaded < length (objects self')
         \<and> (\<exists>data. map_of (sessions_dir self) (session_file session_id) = Some (Document data)
                \<and> from_dict data = Inr (objects self' ! loaded))
         \<and> (\<forall>k. k \<noteq> session_id \<longrightarrow> map_of (sessions self') k = map_of (sessions self) k)"
  using assms
  by (auto simp: load_session_def json_load_def new_object_def map_of_update_same
        map_of_update_other split: option.splits sum.splits file_text.splits)

theorem load_session_key_is_argument_witness:
  "load_session ''k1''
     \<lparr>objects = [], sessions = [], current_session = None,
      sessions_dir = [(''k1.json'',
         Document (JObj [(''id'', JStr ''other''), (''messages'', JArr []),
                         (''created_at'', JStr ''t0'')]))]\<rparr>
   = (Inr 0,
      \<lparr>objects = [\<lparr>id_s = ''other'', messages = [], created_at = ''t0'', system_prompt = None\<rparr>],
       sessions = [(''k1'', 0)], current_session = None,
       sessions_dir = [(''k1.json'',
         Document (JObj [(''id'', JStr ''other''), (''messages'', JArr []),
                         (''created_at'', JStr ''t0'')]))]\<rparr>)
   \<and> map_of [(''k1'', 0::nat)] ''k1'' = Some 0
   \<and> map_of [(''k1'', 0::nat)] ''other'' = None
   \<and> id_s \<lparr>id_s = ''other'', messages = [], created_at = ''t0'', system_prompt = None\<rparr> \<noteq> ''k1''"
proof -
  let ?st = "\<lparr>objects = [], sessions = [], current_session = None,
      sessions_dir = [(''k1.json'',
         Document (JObj [(''id'', JStr ''other''), (''messages'', JArr []),
                         (''created_at'', JStr ''t0'')]))]\<rparr>"
  let ?st' = "\<lparr>objects = [\<lparr>id_s = ''other'', messages = [], created_at = ''t0'', system_prompt = None\<rparr>],
       sessions = [(''k1'', 0)], current_session = None,
       sessions_dir = [(''k1.json'',
         Document (JObj [(''id'', JStr ''other''), (''messages'', JArr []),
                         (''created_at'', JStr ''t0'')]))]\<rparr>"
  have run: "load_session ''k1'' ?st = (Inr 0, ?st')"
    by (simp add: load_session_def session_file_def json_load_def from_dict_def
          Session_fields_def new_object_def)
  from load_session_key_is_argument [OF run] run show ?thesis
    by simp
qed

subsection \<open>Lookup and switch\<close>

text \<open>
  C8. \<open>get_session\<close> and \<open>switch_to_session\<close> raise exactly when the id is no key of
  the in-memory map, whatever the directory holds (nothing is loaded on a miss), the
  exception is a KeyError, and the store is then as it was; \<open>get_session\<close> never
  changes the store; a successful switch changes the current-session reference to the
  map's entry and nothing else, the directory in particular.
\<close>

theorem get_and_switch_not_found:
  "(isl (fst (get_session session_id self)) \<longleftrightarrow> session_id \<notin> fst ` set (sessions self))
   \<and> (isl (fst (switch_to_session session_id self)) \<longleftrightarrow> session_id \<notin> fst ` set (sessions self))
   \<and> fst (get_session session_id (self\<lparr>sessions_dir := d\<rparr>)) = fst (get_session session_id self)
   \<and> fst (switch_to_session session_id (self\<lparr>sessions_dir := d\<rparr>)) =
       fst (switch_to_session session_id self)
   \<and> snd (get_session session_id self) = self
   \<and> (\<forall>e. fst (get_session session_id self) = Inl e \<longrightarrow> (\<exists>msg. e = KeyError msg))
   \<and> (\<forall>e. fst (switch_to_session session_id self) = Inl e \<longrightarrow>
         (\<exists>msg. e = KeyError msg) \<and> snd (switch_to_session session_id self) = self)
   \<and> (\<forall>s. fst (get_session session_id self) = Inr s \<longrightarrow>
         map_of (sessions self) session_id = Some s)
   \<and> (\<forall>u. fst (switch_to_session session_id self) = Inr u \<longrightarrow>
         (\<exists>s. map_of (sessions self) session_id = Some s
            \<and> snd (switch_to_session session_id self) = self\<lparr>current_session := Some s\<rparr>)
         \<and> sessions_dir (snd (switch_to_session session_id self)) = sessions_dir self
         \<and> sessions (snd (switch_to_session session_id self)) = sessions self
         \<and> objects (snd (switch_to_session session_id self)) = objects self)"
proof (cases "map_of (sessions self) session_id")
  case None
  then have "session_id \<notin> fst ` set (sessions self)"
    by (simp add: map_of_eq_None_iff)
  with None show ?thesis
    by (simp add: get_session_def switch_to_session_def)
next
  case (Some s)
  then have "session_id \<in> fst ` set (sessions self)"
    by (metis map_of_eq_None_iff option.distinct(1))
  with Some show ?thesis
    by (simp add: get_session_def switch_to_session_def)
qed

theorem get_and_switch_not_found_witness:
  "switch_to_session ''zz''
     \<lparr>objects = [\<lparr>id_s = ''a'', messages = [], created_at = ''t0'', system_prompt = None\<rparr>,
                 \<lparr>id_s = ''b'', messages = [], created_at = ''t1'', system_prompt = None\<rparr>],
      sessions = [(''a'', 0), (''b'', 1)], current_session = Some 1,
      sessions_dir = [(''zz.json'', Document (JObj []))]\<rparr>
   = (Inl (KeyError ''Session zz not found''),
     \<lparr>objects = [\<lparr>id_s = ''a'', messages = [], created_at = ''t0'', system_prompt = None\<rparr>,
                 \<lparr>id_s = ''b'', messages = [], created_at = ''t1'', system_prompt = None\<rparr>],
      sessions = [(''a'', 0), (''b'', 1)], current_session = Some 1,
      sessions_dir = [(''zz.json'', Document (JObj []))]\<rparr>)
   \<and> switch_to_session ''a''
     \<lparr>objects = [\<lparr>id_s = ''a'', messages = [], created_at = ''t0'', system_prompt = None\<rparr>,
                 \<lparr>id_s = ''b'', messages = [], created_at = ''t1'', system_prompt = None\<rparr>],
      sessions = [(''a'', 0), (''b'', 1)], current_session = Some 1,
      sessions_dir = [(''zz.json'', Document (JObj []))]\<rparr>
   = (Inr (),
     \<lparr>objects = [\<lparr>id_s = ''a'', messages = [], created_at = ''t0'', system_prompt = None\<rparr>,
                 \<lparr>id_s = ''b'', messages = [], created_at = ''t1'', system_prompt = None\<rparr>],
      sessions = [(''a'', 0), (''b'', 1)], current_session = Some 0,
      sessions_dir = [(''zz.json'', Document (JObj []))]\<rparr>)"
  using get_and_switch_not_found
    [of "''zz''" "\<lparr>objects = [\<lparr>id_s = ''a'', messages = [], created_at = ''t0'', system_prompt = None\<rparr>,
                 \<lparr>id_s = ''b'', messages = [], created_at = ''t1'', system_prompt = None\<rparr>],
      sessions = [(''a'', 0), (''b'', 1)], current_session = Some 1,
      sessions_dir = [(''zz.json'', Document (JObj []))]\<rparr>" "[]"]
  by (simp add: switch_to_session_def get_session_def)

subsection \<open>The chat turn\<close>

lemma consume_concat:
  "consume chunks (acc, ui) =
     (acc @ concat chunks, ui\<lparr>streaming_content := streaming_content ui @ concat chunks\<rparr>)"
  by (induction chunks arbitrary: acc ui) (simp_all add: add_streaming_content_def)

lemma concat_yielded: "concat (yielded cs) = spec_accumulate (map payload cs)"
proof (induction cs)
  case Nil
  show ?case by simp
next
  case (Cons c cs)
  show ?case
  proof (cases "choices c")
    case Nil
    with Cons show ?thesis by (simp add: payload_def)
  next
    case (Cons d ds)
    with Cons.IH show ?thesis
      by (cases d) (simp_all add: payload_def)
  qed
qed

lemma spec_accumulate_empty_iff:
  "spec_accumulate fs = [] \<longleftrightarrow> (\<forall>f \<in> set fs. f = None \<or> f = Some [])"
proof (induction fs)
  case Nil
  show ?case by simp
next
  case (Cons f fs)
  then show ?case by (cases f) auto
qed

text \<open>Appending a message to a session and saving the session, when the file opens.\<close>

lemma save_after_add:
  assumes "cur < length (objects sm)"
    and "open_w (session_file (id_s (objects sm ! cur))) = None"
  shows "save_session open_w cur (object_add_message cur msg sm) =
           (Inr (),
            sm\<lparr>objects := (objects sm)[cur := add_message (objects sm ! cur) msg],
               sessions_dir :=
                 AList.update (session_file (id_s (objects sm ! cur)))
                   (json_dump (to_dict (add_message (objects sm ! cur) msg))) (sessions_dir sm)\<rparr>)"
  using assms by (simp add: save_session_def object_add_message_def add_message_def)

lemma chat_turn_success:
  assumes "current_session sm = Some cur" and "cur < length (objects sm)"
    and "\<And>m ms. create m ms = Streams cs None"
    and "open_w (session_file (id_s (objects sm ! cur))) = None"
  shows "chat_turn open_w markup_ok create client user_input now_user now_assistant (sm, ui) =
           (Inr (),
            (let sm2 = snd (save_session open_w cur (object_add_message cur
                             \<lparr>role = ''user'', content = user_input, timestamp = now_user\<rparr> sm))
             in if concat (yielded cs) \<noteq> []
                then snd (save_session open_w cur (object_add_message cur
                       \<lparr>role = ''assistant'', content = concat (yielded cs),
                        timestamp = now_assistant\<rparr> sm2))
                else sm2),
            ui\<lparr>streaming_content := []\<rparr>)"
proof -
  let ?user = "\<lparr>role = ''user'', content = user_input, timestamp = now_user\<rparr>"
  let ?asst = "\<lparr>role = ''assistant'', content = concat (yielded cs), timestamp = now_assistant\<rparr>"
  obtain sm2 where s1: "save_session open_w cur (object_add_message cur ?user sm) = (Inr (), sm2)"
    and len2: "length (objects sm2) = length (objects sm)"
    and id2: "id_s (objects sm2 ! cur) = id_s (objects sm ! cur)"
    using save_after_add [where open_w = open_w and sm = sm and cur = cur and msg = ?user, OF assms(2) assms(4)] assms(2)
    by (simp add: add_message_def)
  from len2 id2 assms(2) assms(4)
  have "cur < length (objects sm2)" and "open_w (session_file (id_s (objects sm2 ! cur))) = None"
    by simp_all
  then obtain sm3 where s2: "save_session open_w cur (object_add_message cur ?asst sm2) = (Inr (), sm3)"
    using save_after_add [where open_w = open_w and sm = sm2 and cur = cur and msg = ?asst] by simp
  show ?thesis
    using assms(1) assms(3) s1 s2
    by (simp add: chat_turn_def chat_stream_def Let_def consume_concat clear_streaming_content_def)
qed

text \<open>
  A turn whose request raises, when the first save succeeds: what the handler leaves
  when the console renders the error text, and what it leaves when Rich rejects it.
\<close>

lemma chat_turn_failure:
  assumes "current_session sm = Some cur" and "cur < length (objects sm)"
    and "\<And>m ms. create m ms = c"
    and "c = Raises e \<or> c = Streams cs (Some e)"
    and "wrap_exception e = LLMError msg"
    and "open_w (session_file (id_s (objects sm ! cur))) = None"
  shows "markup_ok (''LLM error: '' @ msg) \<Longrightarrow>
         chat_turn open_w markup_ok create client user_input now_user now_assistant (sm, ui) =
           (Inr (),
            snd (save_session open_w cur (object_add_message cur
                   \<lparr>role = ''user'', content = user_input, timestamp = now_user\<rparr> sm)),
            \<lparr>console = console ui @ [ErrorPanel (''LLM error: '' @ msg)],
             streaming_content = []\<rparr>)"
    and "\<not> markup_ok (''LLM error: '' @ msg) \<Longrightarrow>
         chat_turn open_w markup_ok create client user_input now_user now_assistant (sm, ui) =
           (Inl MarkupError,
            snd (save_session open_w cur (object_add_message cur
                   \<lparr>role = ''user'', content = user_input, timestamp = now_user\<rparr> sm)),
            \<lparr>console = console ui,
             streaming_content = (case c of Raises x \<Rightarrow> [] | Streams xs x \<Rightarrow> concat (yielded xs))\<rparr>)"
proof -
  let ?user = "\<lparr>role = ''user'', content = user_input, timestamp = now_user\<rparr>"
  obtain sm2 where s1: "save_session open_w cur (object_add_message cur ?user sm) = (Inr (), sm2)"
    using save_after_add [where open_w = open_w and sm = sm and cur = cur and msg = ?user, OF assms(2) assms(6)] by simp
  show "markup_ok (''LLM error: '' @ msg) \<Longrightarrow>
         chat_turn open_w markup_ok create client user_input now_user now_assistant (sm, ui) =
           (Inr (),
            snd (save_session open_w cur (object_add_message cur ?user sm)),
            \<lparr>console = console ui @ [ErrorPanel (''LLM error: '' @ msg)],
             streaming_content = []\<rparr>)"
    using assms(1) assms(3) assms(4) assms(5) s1
    by (auto simp: chat_turn_def chat_stream_def Let_def consume_concat
          clear_streaming_content_def display_error_def)
  show "\<not> markup_ok (''LLM error: '' @ msg) \<Longrightarrow>
         chat_turn open_w markup_ok create client user_input now_user now_assistant (sm, ui) =
           (Inl MarkupError,
            snd (save_session open_w cur (object_add_message cur ?user sm)),
            \<lparr>console = console ui,
             streaming_content = (case c of Raises x \<Rightarrow> [] | Streams xs x \<Rightarrow> concat (yielded xs))\<rparr>)"
    using assms(1) assms(3) assms(4) assms(5) s1
    by (auto simp: chat_turn_def chat_stream_def Let_def consume_concat
          clear_streaming_content_def display_error_def)
qed

text \<open>
  C4. In a turn whose stream ends normally (and whose session file the file system lets
  the program write, so that the turn commits), the content accumulated by the code
  equals the specification's concatenation of the fragments in arrival order, in which
  an absent payload is skipped and an empty string is appended as zero characters
  (\<open>chat_stream\<close> does not yield an empty string, \<open>spec_accumulate\<close> appends it: the
  text is the same, as \<open>concat_yielded\<close> shows). The
  turn appends the user message and then, when that text is not empty, one assistant
  message with exactly that content, and it appends no assistant message exactly when
  every fragment is absent or empty: an empty-string fragment beside a non-empty one
  does not prevent the append, and a stream of one empty-string fragment appends nothing.
\<close>

theorem chat_turn_accumulates_fragments:
  assumes "current_session sm = Some cur" and "cur < length (objects sm)"
    and "\<And>m ms. create m ms = Streams cs None"
    and "open_w (session_file (id_s (objects sm ! cur))) = None"
  shows "\<exists>sm' ui'.
           chat_turn open_w markup_ok create client user_input now_user now_assistant (sm, ui)
             = (Inr (), sm', ui')
           \<and> messages (objects sm' ! cur) =
               messages (objects sm ! cur)
                 @ [\<lparr>role = ''user'', content = user_input, timestamp = now_user\<rparr>]
                 @ (if spec_accumulate (map payload cs) = [] then []
                    else [\<lparr>role = ''assistant'', content = spec_accumulate (map payload cs),
                           timestamp = now_assistant\<rparr>])
           \<and> (length (messages (objects sm' ! cur)) = length (messages (objects sm ! cur)) + 1
                \<longleftrightarrow> (\<forall>f \<in> set (map payload cs). f = None \<or> f = Some []))"
proof -
  let ?user = "\<lparr>role = ''user'', content = user_input, timestamp = now_user\<rparr>"
  let ?acc = "spec_accumulate (map payload cs)"
  let ?sm2 = "snd (save_session open_w cur (object_add_message cur ?user sm))"
  let ?asst = "\<lparr>role = ''assistant'', content = ?acc, timestamp = now_assistant\<rparr>"
  let ?sm3 = "snd (save_session open_w cur (object_add_message cur ?asst ?sm2))"
  have o2: "objects ?sm2 = (objects sm)[cur := add_message (objects sm ! cur) ?user]"
    using save_after_add [where open_w = open_w and sm = sm and cur = cur and msg = ?user, OF assms(2) assms(4)] by simp
  have len2: "cur < length (objects ?sm2)"
    using assms(2) by (simp add: o2)
  have m2: "messages (objects ?sm2 ! cur) = messages (objects sm ! cur) @ [?user]"
    using assms(2) by (simp add: o2 add_message_def)
  have id2: "open_w (session_file (id_s (objects ?sm2 ! cur))) = None"
    using assms(2) assms(4) by (simp add: o2 add_message_def)
  have o3: "objects ?sm3 = (objects ?sm2)[cur := add_message (objects ?sm2 ! cur) ?asst]"
    using save_after_add [where open_w = open_w and sm = ?sm2 and cur = cur and msg = ?asst, OF len2 id2] by simp
  have m3: "messages (objects ?sm3 ! cur) = messages (objects sm ! cur) @ [?user] @ [?asst]"
    using len2 m2 by (simp add: o3 add_message_def)
  have run: "chat_turn open_w markup_ok create client user_input now_user now_assistant (sm, ui) =
               (Inr (), (if ?acc \<noteq> [] then ?sm3 else ?sm2), ui\<lparr>streaming_content := []\<rparr>)"
    using chat_turn_success [where open_w = open_w and create = create and cs = cs, OF assms(1) assms(2) assms(3) assms(4)]
    by (simp add: concat_yielded Let_def)
  show ?thesis
  proof (cases "?acc = []")
    case True
    then have "\<forall>f \<in> set (map payload cs). f = None \<or> f = Some []"
      using spec_accumulate_empty_iff [of "map payload cs"] by blast
    with True run m2 show ?thesis by simp
  next
    case False
    then have "\<not> (\<forall>f \<in> set (map payload cs). f = None \<or> f = Some [])"
      using spec_accumulate_empty_iff [of "map payload cs"] by blast
    with False run m3 show ?thesis by simp
  qed
qed

theorem chat_turn_accumulates_fragments_witness:
  "chat_turn Map.empty (\<lambda>t. True)
     (\<lambda>m ms. Streams [Chunk [Some ''Hel''], Chunk [None], Chunk [Some ''lo''], Chunk [Some ''''],
                      Chunk [Some ''!'']] None)
     \<lparr>model = ''gpt-4o-mini'', client_system_prompt = None\<rparr> ''Hi'' ''t1'' ''t2''
     (\<lparr>objects = [\<lparr>id_s = ''a'', messages = [], created_at = ''t0'', system_prompt = None\<rparr>],
       sessions = [(''a'', 0)], current_session = Some 0, sessions_dir = []\<rparr>,
      \<lparr>console = [], streaming_content = []\<rparr>)
   = (Inr (),
      \<lparr>objects = [\<lparr>id_s = ''a'',
                   messages = [\<lparr>role = ''user'', content = ''Hi'', timestamp = ''t1''\<rparr>,
                               \<lparr>role = ''assistant'', content = ''Hello!'', timestamp = ''t2''\<rparr>],
                   created_at = ''t0'', system_prompt = None\<rparr>],
       sessions = [(''a'', 0)], current_session = Some 0,
       sessions_dir =
         [(''a.json'', Document (to_dict
            \<lparr>id_s = ''a'',
             messages = [\<lparr>role = ''user'', content = ''Hi'', timestamp = ''t1''\<rparr>,
                         \<lparr>role = ''assistant'', content = ''Hello!'', timestamp = ''t2''\<rparr>],
             created_at = ''t0'', system_prompt = None\<rparr>))]\<rparr>,
      \<lparr>console = [], streaming_content = []\<rparr>)
   \<and> spec_accumulate [Some ''Hel'', None, Some ''lo'', Some '''', Some ''!''] = ''Hello!''
   \<and> spec_accumulate [Some ''''] = ''''"
  using chat_turn_accumulates_fragments
    [where sm = "\<lparr>objects = [\<lparr>id_s = ''a'', messages = [], created_at = ''t0'', system_prompt = None\<rparr>],
          sessions = [(''a'', 0)], current_session = Some 0, sessions_dir = []\<rparr>"
       and cur = 0 and open_w = Map.empty and markup_ok = "\<lambda>t. True"
       and create = "\<lambda>m ms. Streams [Chunk [Some ''Hel''], Chunk [None], Chunk [Some ''lo''],
                      Chunk [Some ''''], Chunk [Some ''!'']] None"
       and cs = "[Chunk [Some ''Hel''], Chunk [None], Chunk [Some ''lo''], Chunk [Some ''''],
                  Chunk [Some ''!'']]"
       and client = "\<lparr>model = ''gpt-4o-mini'', client_system_prompt = None\<rparr>"
       and user_input = "''Hi''" and now_user = "''t1''" and now_assistant = "''t2''"
       and ui = "\<lparr>console = [], streaming_content = []\<rparr>"]
  by (simp add: chat_turn_def chat_stream_def Let_def save_session_def object_add_message_def
        add_message_def get_messages_for_api_def clear_streaming_content_def
        add_streaming_content_def session_file_def json_dump_def to_dict_def
        Message_to_dict_def high_surrogate_def payload_def)

text \<open>
  C1 holds of the code only while the console renders the error text. At this input it
  does not: the request raises after the fragment \<open>Hel\<close> with the text
  \<open>bad [/INST] token\<close>, \<open>chat_stream\<close> wraps it, the handler hands
  \<open>LLM error: API error: bad [/INST] token\<close> to \<open>display_error\<close>, and Rich rejects the
  closing tag that matches no open tag. The exception \<open>MarkupError\<close> leaves the handler
  and the loop: no error panel is printed, the streaming buffer still holds \<open>Hel\<close>. The
  session holds the user message and no assistant message, and so does its file.
\<close>

theorem chat_turn_stream_failure_markup_error:
  "chat_turn Map.empty (\<lambda>t. t \<noteq> ''LLM error: API error: bad [/INST] token'')
     (\<lambda>m ms. Streams [Chunk [Some ''Hel'']] (Some (ApiException True False ''bad [/INST] token'')))
     \<lparr>model = ''gpt-4o-mini'', client_system_prompt = None\<rparr> ''Hi'' ''t1'' ''t2''
     (\<lparr>objects = [\<lparr>id_s = ''a'', messages = [], created_at = ''t0'', system_prompt = None\<rparr>],
       sessions = [(''a'', 0)], current_session = Some 0, sessions_dir = []\<rparr>,
      \<lparr>console = [], streaming_content = []\<rparr>)
   = (Inl MarkupError,
      \<lparr>objects = [\<lparr>id_s = ''a'',
                   messages = [\<lparr>role = ''user'', content = ''Hi'', timestamp = ''t1''\<rparr>],
                   created_at = ''t0'', system_prompt = None\<rparr>],
       sessions = [(''a'', 0)], current_session = Some 0,
       sessions_dir =
         [(''a.json'',
           Document (JObj [(''id'', JStr ''a''),
                           (''messages'',
                            JArr [JObj [(''role'', JStr ''user''), (''content'', JStr ''Hi''),
                                        (''timestamp'', JStr ''t1'')]]),
                           (''created_at'', JStr ''t0''), (''system_prompt'', JNull)]))]\<rparr>,
      \<lparr>console = [], streaming_content = ''Hel''\<rparr>)"
  by (simp add: chat_turn_def chat_stream_def Let_def save_session_def object_add_message_def
        add_message_def get_messages_for_api_def clear_streaming_content_def
        add_streaming_content_def display_error_def wrap_exception_def session_file_def
        json_dump_def to_dict_def Message_to_dict_def high_surrogate_def)

subsection \<open>Listing the sessions\<close>

lemma descending_stable_sort:
  fixes f :: "'a \<Rightarrow> 'k::linorder"
  shows "sorted_wrt (\<lambda>x y. f y \<le> f x) (rev (sort_key f (rev vs)))"
    and "filter (\<lambda>x. f x = k) (rev (sort_key f (rev vs))) = filter (\<lambda>x. f x = k) vs"
    and "set (rev (sort_key f (rev vs))) = set vs"
    and "length (rev (sort_key f (rev vs))) = length vs"
proof -
  have "sorted (map f (sort_key f (rev vs)))"
    by (rule sorted_sort_key)
  then have "sorted_wrt (\<lambda>x y. f x \<le> f y) (sort_key f (rev vs))"
    by (simp add: sorted_map)
  then show "sorted_wrt (\<lambda>x y. f y \<le> f x) (rev (sort_key f (rev vs)))"
    by (simp add: sorted_wrt_rev)
  have "filter (\<lambda>x. f x = k) (rev (sort_key f (rev vs))) =
          rev (filter (\<lambda>x. f x = k) (sort_key f (rev vs)))"
    by (simp add: rev_filter)
  also have "\<dots> = rev (filter (\<lambda>x. f x = k) (rev vs))"
    by (simp only: sort_key_stable)
  also have "\<dots> = filter (\<lambda>x. f x = k) vs"
    by (simp add: rev_filter)
  finally show "filter (\<lambda>x. f x = k) (rev (sort_key f (rev vs))) = filter (\<lambda>x. f x = k) vs" .
  show "set (rev (sort_key f (rev vs))) = set vs" by simp
  show "length (rev (sort_key f (rev vs))) = length vs" by simp
qed

lemma descending_greater_first:
  fixes f :: "'a \<Rightarrow> 'k::linorder"
  assumes "sorted_wrt (\<lambda>x y. f y \<le> f x) xs" and "x \<in> set xs" and "y \<in> set xs"
    and "f y < f x"
  shows "\<exists>i j. i < j \<and> j < length xs \<and> xs ! i = x \<and> xs ! j = y"
proof -
  from assms(2) obtain i where i: "i < length xs" "xs ! i = x"
    by (auto simp: in_set_conv_nth)
  from assms(3) obtain j where j: "j < length xs" "xs ! j = y"
    by (auto simp: in_set_conv_nth)
  have "i < j"
  proof (rule ccontr)
    assume "\<not> i < j"
    then consider "j = i" | "j < i" by linarith
    then show False
    proof cases
      case 1
      with i j assms(4) show False by simp
    next
      case 2
      with assms(1) i(1) have "f (xs ! i) \<le> f (xs ! j)"
        by (auto simp: sorted_wrt_iff_nth_less)
      with i j assms(4) show False by simp
    qed
  qed
  with i j show ?thesis by blast
qed

lemma pair_in_update: "(k, v) \<in> set (AList.update k v al)"
  by (induction al) auto

lemma snd_in_update: "v \<in> snd ` set (AList.update k v al)"
  using pair_in_update [of k v al] by force

lemma pair_in_update_other:
  "(k', v') \<in> set al \<Longrightarrow> k' \<noteq> k \<Longrightarrow> (k', v') \<in> set (AList.update k v al)"
  by (induction al) auto

lemma sorted_list_sessions:
  "sorted_wrt (\<lambda>x y. created_at (objects self ! y) \<le> created_at (objects self ! x))
     (list_sessions self)"
  unfolding list_sessions_def Let_def by (rule descending_stable_sort(1))

lemma set_list_sessions: "set (list_sessions self) = snd ` set (sessions self)"
  unfolding list_sessions_def Let_def by (simp add: descending_stable_sort(3))

lemma length_list_sessions: "length (list_sessions self) = length (sessions self)"
  unfolding list_sessions_def Let_def by (simp add: descending_stable_sort(4))

lemma stable_list_sessions:
  "filter (\<lambda>s. created_at (objects self ! s) = t) (list_sessions self) =
     filter (\<lambda>s. created_at (objects self ! s) = t) (map snd (sessions self))"
  unfolding list_sessions_def Let_def by (rule descending_stable_sort(2))

lemma create_twice:
  fixes self :: SessionManager and prompt1 prompt2 :: "string option"
    and uuid1 uuid2 now1 now2 :: string
  defines "st \<equiv> snd (create_session prompt2 uuid2 now2 (snd (create_session prompt1 uuid1 now1 self)))"
  assumes ne: "uuid1 \<noteq> uuid2"
  shows "created_at (objects st ! length (objects self)) = now1"
    and "created_at (objects st ! Suc (length (objects self))) = now2"
    and "length (objects self) \<in> snd ` set (sessions st)"
    and "Suc (length (objects self)) \<in> snd ` set (sessions st)"
proof -
  let ?n = "length (objects self)"
  have objs: "objects st = objects self
                @ [\<lparr>id_s = uuid1, messages = [], created_at = now1, system_prompt = prompt1\<rparr>,
                   \<lparr>id_s = uuid2, messages = [], created_at = now2, system_prompt = prompt2\<rparr>]"
    by (simp add: st_def create_session_def new_object_def)
  have sess: "sessions st = AList.update uuid2 (Suc ?n) (AList.update uuid1 ?n (sessions self))"
    by (simp add: st_def create_session_def new_object_def)
  show "created_at (objects st ! ?n) = now1"
    by (simp add: objs nth_append)
  show "created_at (objects st ! Suc ?n) = now2"
    by (simp add: objs nth_append)
  have "(uuid1, ?n) \<in> set (AList.update uuid1 ?n (sessions self))"
    by (rule pair_in_update)
  then have "(uuid1, ?n) \<in> set (sessions st)"
    unfolding sess using ne by (rule pair_in_update_other)
  then show "?n \<in> snd ` set (sessions st)"
    by (rule image_eqI [rotated]) simp
  show "Suc ?n \<in> snd ` set (sessions st)"
    unfolding sess by (rule snd_in_update)
qed

text \<open>
  C7, as the specification states it, fails: after the construction on an empty
  directory, two sessions \<open>b\<close> and \<open>c\<close> are created one right after the other and the
  clock gives both the same \<open>created_at\<close>; the listing has \<open>b\<close> (object 1), created
  first, before \<open>c\<close> (object 2), created last.
\<close>

theorem list_sessions_tie_counterexample:
  "init [] ''a'' ''t1'' =
     Inr \<lparr>objects = [\<lparr>id_s = ''a'', messages = [], created_at = ''t1'', system_prompt = None\<rparr>],
          sessions = [(''a'', 0)], current_session = Some 0, sessions_dir = []\<rparr>
   \<and> snd (create_session None ''c'' ''t2'' (snd (create_session None ''b'' ''t2''
          \<lparr>objects = [\<lparr>id_s = ''a'', messages = [], created_at = ''t1'', system_prompt = None\<rparr>],
           sessions = [(''a'', 0)], current_session = Some 0, sessions_dir = []\<rparr>))) =
       \<lparr>objects = [\<lparr>id_s = ''a'', messages = [], created_at = ''t1'', system_prompt = None\<rparr>,
                   \<lparr>id_s = ''b'', messages = [], created_at = ''t2'', system_prompt = None\<rparr>,
                   \<lparr>id_s = ''c'', messages = [], created_at = ''t2'', system_prompt = None\<rparr>],
        sessions = [(''a'', 0), (''b'', 1), (''c'', 2)], current_session = Some 2,
        sessions_dir = []\<rparr>
   \<and> list_sessions
       \<lparr>objects = [\<lparr>id_s = ''a'', messages = [], created_at = ''t1'', system_prompt = None\<rparr>,
                   \<lparr>id_s = ''b'', messages = [], created_at = ''t2'', system_prompt = None\<rparr>,
                   \<lparr>id_s = ''c'', messages = [], created_at = ''t2'', system_prompt = None\<rparr>],
        sessions = [(''a'', 0), (''b'', 1), (''c'', 2)], current_session = Some 2,
        sessions_dir = []\<rparr> = [1, 2, 0]"
  by (simp add: init_def load_all_sessions_def list_sessions_def create_session_def
        new_object_def less_eq_char_def less_char_def)

text \<open>
  C7 as amended. For every store, \<open>list_sessions\<close> returns the sessions of the map, each as
  often as the map holds it, in descending order of \<open>created_at\<close> (compared as strings);
  sessions with equal \<open>created_at\<close> keep the order in which the map holds them (its
  insertion order: the sort is stable and has no secondary key), and the result is a
  function of the store, which the call does not change, so repeated calls agree. Of two
  sessions created one right after the other under different ids, the later one comes
  first whenever its \<open>created_at\<close> is strictly greater.
\<close>

theorem list_sessions_descending_stable:
  "sorted_wrt (\<lambda>x y. created_at (objects self ! y) \<le> created_at (objects self ! x))
     (list_sessions self)
   \<and> set (list_sessions self) = snd ` set (sessions self)
   \<and> length (list_sessions self) = length (sessions self)
   \<and> (\<forall>t. filter (\<lambda>s. created_at (objects self ! s) = t) (list_sessions self) =
            filter (\<lambda>s. created_at (objects self ! s) = t) (map snd (sessions self)))
   \<and> (\<forall>prompt1 uuid1 now1 prompt2 uuid2 now2.
         uuid1 \<noteq> uuid2 \<and> now1 < now2 \<longrightarrow>
         (\<exists>i j. i < j
            \<and> j < length (list_sessions (snd (create_session prompt2 uuid2 now2
                      (snd (create_session prompt1 uuid1 now1 self)))))
            \<and> list_sessions (snd (create_session prompt2 uuid2 now2
                      (snd (create_session prompt1 uuid1 now1 self)))) ! i
                = Suc (length (objects self))
            \<and> list_sessions (snd (create_session prompt2 uuid2 now2
                      (snd (create_session prompt1 uuid1 now1 self)))) ! j
                = length (objects self)))"
proof (intro conjI allI impI)
  show "sorted_wrt (\<lambda>x y. created_at (objects self ! y) \<le> created_at (objects self ! x))
          (list_sessions self)"
    by (rule sorted_list_sessions)
  show "set (list_sessions self) = snd ` set (sessions self)"
    by (rule set_list_sessions)
  show "length (list_sessions self) = length (sessions self)"
    by (rule length_list_sessions)
  show "filter (\<lambda>s. created_at (objects self ! s) = t) (list_sessions self) =
          filter (\<lambda>s. created_at (objects self ! s) = t) (map snd (sessions self))" for t
    by (rule stable_list_sessions)
next
  fix prompt1 :: "string option" and uuid1 now1 :: string
    and prompt2 :: "string option" and uuid2 now2 :: string
  assume h: "uuid1 \<noteq> uuid2 \<and> (now1 :: string) < now2"
  define st where
    "st = snd (create_session prompt2 uuid2 now2 (snd (create_session prompt1 uuid1 now1 self)))"
  let ?n = "length (objects self)"
  from h have ne: "uuid1 \<noteq> uuid2" and lt: "now1 < now2" by simp_all
  have k1: "created_at (objects st ! ?n) = now1"
    and k2: "created_at (objects st ! Suc ?n) = now2"
    and m1: "?n \<in> snd ` set (sessions st)"
    and m2: "Suc ?n \<in> snd ` set (sessions st)"
    unfolding st_def by (rule create_twice [OF ne])+
  have in1: "?n \<in> set (list_sessions st)" and in2: "Suc ?n \<in> set (list_sessions st)"
    using m1 m2 by (simp_all only: set_list_sessions)
  have lt': "created_at (objects st ! ?n) < created_at (objects st ! Suc ?n)"
    using lt by (simp only: k1 k2)
  have "\<exists>i j. i < j \<and> j < length (list_sessions st)
           \<and> list_sessions st ! i = Suc ?n \<and> list_sessions st ! j = ?n"
    by (rule descending_greater_first [OF sorted_list_sessions in2 in1 lt'])
  then show "\<exists>i j. i < j
            \<and> j < length (list_sessions (snd (create_session prompt2 uuid2 now2
                      (snd (create_session prompt1 uuid1 now1 self)))))
            \<and> list_sessions (snd (create_session prompt2 uuid2 now2
                      (snd (create_session prompt1 uuid1 now1 self)))) ! i
                = Suc (length (objects self))
            \<and> list_sessions (snd (create_session prompt2 uuid2 now2
                      (snd (create_session prompt1 uuid1 now1 self)))) ! j
                = length (objects self)"
    unfolding st_def .
qed

theorem list_sessions_descending_stable_witness:
  "''b'' \<noteq> ''c'' \<and> ''t2'' < ''t3''
   \<and> list_sessions (snd (create_session None ''c'' ''t3'' (snd (create_session None ''b'' ''t2''
          \<lparr>objects = [\<lparr>id_s = ''a'', messages = [], created_at = ''t1'', system_prompt = None\<rparr>],
           sessions = [(''a'', 0)], current_session = Some 0, sessions_dir = []\<rparr>)))) = [2, 1, 0]"
  using list_sessions_descending_stable
    [of "\<lparr>objects = [\<lparr>id_s = ''a'', messages = [], created_at = ''t1'', system_prompt = None\<rparr>],
          sessions = [(''a'', 0)], current_session = Some 0, sessions_dir = []\<rparr>"]
  by (simp add: list_sessions_def create_session_def new_object_def less_eq_char_def
        less_char_def)

subsection \<open>The store is never empty and has a current session\<close>







lemma load_one_current: "current_session (snd (load_one f self)) = current_session self"
  by (simp add: load_one_def new_object_def split: sum.splits)











end
